theory Spec2Isabelle
  imports Main "HOL-Library.Word" "HOL-Library.Signed_Division"
begin

unbundle bit_operations_syntax

section \<open>Machine integers of the emulator\<close>

type_synonym uint8_t = "8 word"
type_synonym uint16_t = "16 word"

section \<open>2C02 (PPU): scroll-address helpers\<close>

text \<open>
  \<^verbatim>\<open>uint16_t coarseXinc(uint16_t v)\<close> (2C02.c): when coarse X (the low five bits) is
  31 it is cleared and bit 10 (the horizontal nametable) is flipped; otherwise \<open>v\<close> is
  incremented.
\<close>

definition coarseXinc :: "uint16_t \<Rightarrow> uint16_t" where
  "coarseXinc v =
     (if v AND 0x001F = 31
      then (v AND NOT 0x001F) XOR 0x0400
      else v + 1)"

text \<open>
  \<^verbatim>\<open>uint16_t fineYinc(uint16_t v)\<close> (2C02.c). The local \<open>y\<close> is a C \<open>int\<close> in the range
  0..31; it is kept as a 16-bit word here, which holds every value it takes.
\<close>

definition fineYinc :: "uint16_t \<Rightarrow> uint16_t" where
  "fineYinc v =
     (if v AND 0x7000 \<noteq> 0x7000
      then v + 0x1000
      else
        (let v1 = v AND NOT 0x7000;
             y = drop_bit 5 (v1 AND 0x03E0)
         in if y = 29 then ((v1 XOR 0x0800) AND NOT 0x03E0) OR push_bit 5 0
            else if y = 31 then (v1 AND NOT 0x03E0) OR push_bit 5 0
            else (v1 AND NOT 0x03E0) OR push_bit 5 (y + 1)))"

definition getNameTableAddr :: "uint16_t \<Rightarrow> uint16_t" where
  "getNameTableAddr v = 0x2000 OR (v AND 0x0FFF)"

definition getAttribTableAddr :: "uint16_t \<Rightarrow> uint16_t" where
  "getAttribTableAddr v =
     0x23C0 OR (v AND 0x0C00) OR (drop_bit 4 v AND 0x38) OR (drop_bit 2 v AND 0x07)"

section \<open>2C02 (PPU): state\<close>

type_synonym color = "uint8_t \<times> uint8_t \<times> uint8_t"

text \<open>The table \<^verbatim>\<open>PALETTE_MAP[64]\<close> of 2C02.c.\<close>

definition PALETTE_MAP :: "color list" where
  "PALETTE_MAP =
    [( 84,  84,  84), (  0,  30, 116), (  8,  16, 144), ( 48,   0, 136),
     ( 68,   0, 100), ( 92,   0,  48), ( 84,   4,   0), ( 60,  24,   0),
     ( 32,  42,   0), (  8,  58,   0), (  0,  64,   0), (  0,  60,   0),
     (  0,  50,  60), (  0,   0,   0), (  0,   0,   0), (  0,   0,   0),
     (152, 150, 152), (  8,  76, 196), ( 48,  50, 236), ( 92,  30, 228),
     (136,  20, 176), (160,  20, 100), (152,  34,  32), (120,  60,   0),
     ( 84,  90,   0), ( 40, 114,   0), (  8, 124,   0), (  0, 118,  40),
     (  0, 102, 120), (  0,   0,   0), (  0,   0,   0), (  0,   0,   0),
     (236, 238, 236), ( 76, 154, 236), (120, 124, 236), (176,  98, 236),
     (228,  84, 236), (236,  88, 180), (236, 106, 100), (212, 136,  32),
     (160, 170,   0), (116, 196,   0), ( 76, 208,  32), ( 56, 204, 108),
     ( 56, 180, 204), ( 60,  60,  60), (  0,   0,   0), (  0,   0,   0),
     (236, 238, 236), (168, 204, 236), (188, 188, 236), (212, 178, 236),
     (236, 174, 236), (236, 174, 212), (236, 180, 176), (228, 196, 144),
     (204, 210, 120), (180, 222, 120), (168, 226, 144), (152, 226, 180),
     (160, 214, 228), (160, 162, 160), (  0,   0,   0), (  0,   0,   0)]"

text \<open>
  Modelled from the spec: the declaration of \<^verbatim>\<open>State2C02\<close> (2C02.h) is not among the
  sources. The fields are those that 2C02.c reads and writes, with the widths of the
  spec's data model: the memory-mapped registers are bytes, \<open>v\<close> and \<open>t\<close> are 15-bit,
  \<open>x\<close> is 3-bit, \<open>w\<close> is 1-bit, the latches are bytes and the four shift registers are
  16-bit. \<open>scanline\<close> and \<open>cycles\<close> are signed counters (\<open>scanline\<close> takes the value -1).
  The framebuffer \<open>pixels\<close> is an array of colours, indexed by \<open>scanline * 256 + cycles - 1\<close>.
  The two pointer fields are modelled by the objects they point to: \<open>bus_2C02\<close> (the
  field \<^verbatim>\<open>bus\<close>) is the PPU bus and \<open>cpu_6502\<close> (the field \<^verbatim>\<open>cpu\<close>) is the CPU whose
  NMI line the PPU raises. They carry the name of the object so that the records of
  this theory do not share a field name.
\<close>

record ('b, 'c) State2C02 =
  PPUCTRL :: uint8_t
  PPUMASK :: uint8_t
  PPUSTATUS :: uint8_t
  OAMADDR :: uint8_t
  PPUSCROLL :: uint8_t
  PPUADDR :: uint8_t
  PPUDATA :: uint8_t
  v :: "15 word"
  t :: "15 word"
  x :: "3 word"
  w :: "1 word"
  name_tbl_byte :: uint8_t
  pa_latch_low :: uint8_t
  pa_latch_high :: uint8_t
  pt_latch_low :: uint8_t
  pt_latch_high :: uint8_t
  pt_shift_low :: uint16_t
  pt_shift_high :: uint16_t
  pa_shift_low :: uint16_t
  pa_shift_high :: uint16_t
  scanline :: int
  cycles :: int
  evenframe :: bool
  pixels :: "int \<Rightarrow> color"
  bus_2C02 :: 'b
  cpu_6502 :: 'c

text \<open>
  Modelled from the spec: the bit-field views \<^verbatim>\<open>.flags\<close> of the register unions are
  declared in 2C02.h; the positions are those of the NES reference that the spec names.
  \<^verbatim>\<open>PPUCTRL.flags\<close>: \<open>N\<close> is bits 0-1, \<open>I\<close> is bit 2, \<open>B\<close> is bit 4, \<open>V\<close> is bit 7.
  \<^verbatim>\<open>PPUMASK.flags.b\<close> is bit 3. \<^verbatim>\<open>PPUSTATUS.flags.V\<close> is bit 7.
\<close>

definition PPUCTRL_N :: "uint8_t \<Rightarrow> uint8_t" where
  "PPUCTRL_N r = r AND 0x03"

definition PPUCTRL_I :: "uint8_t \<Rightarrow> bool" where
  "PPUCTRL_I r = bit r 2"

definition PPUCTRL_B :: "uint8_t \<Rightarrow> bool" where
  "PPUCTRL_B r = bit r 4"

definition PPUCTRL_V :: "uint8_t \<Rightarrow> bool" where
  "PPUCTRL_V r = bit r 7"

definition PPUMASK_b :: "uint8_t \<Rightarrow> bool" where
  "PPUMASK_b r = bit r 3"

definition PPUSTATUS_V :: "uint8_t \<Rightarrow> bool" where
  "PPUSTATUS_V r = bit r 7"

text \<open>Assignment of 0 or 1 to \<^verbatim>\<open>PPUSTATUS.flags.V\<close>.\<close>

definition set_PPUSTATUS_V :: "bool \<Rightarrow> uint8_t \<Rightarrow> uint8_t" where
  "set_PPUSTATUS_V b r = (if b then r OR 0x80 else r AND 0x7F)"

text \<open>
  The PPU bus (2C02_Bus.c) is not among the sources: its two accessors are parameters of
  the model. A read returns the byte and the bus after the access.
\<close>

type_synonym 'b ppu_bus_read = "'b \<Rightarrow> uint16_t \<Rightarrow> uint8_t \<times> 'b"
type_synonym 'b ppu_bus_write = "'b \<Rightarrow> uint16_t \<Rightarrow> uint8_t \<Rightarrow> 'b"

section \<open>2C02 (PPU): background fetch and the dot clock\<close>

text \<open>
  \<^verbatim>\<open>void fetch_data_inc_v(State2C02* ppu)\<close>: the switch on \<^verbatim>\<open>ppu->cycles % 8\<close>
  (C remainder, which truncates towards zero: \<open>smod\<close>). The 15-bit \<open>v\<close> is widened to
  \<^verbatim>\<open>uint16_t\<close> for the helpers and narrowed again on assignment.
\<close>

definition fetch_data_inc_v ::
  "'b ppu_bus_read \<Rightarrow> ('b, 'c) State2C02 \<Rightarrow> ('b, 'c) State2C02" where
  "fetch_data_inc_v rd ppu =
     (let k = cycles ppu smod 8 in
      if k = 1 then
        (let name_tbl_addr = getNameTableAddr (ucast (v ppu));
             (d, b') = rd (bus_2C02 ppu) name_tbl_addr
         in ppu\<lparr>name_tbl_byte := d, bus_2C02 := b'\<rparr>)
      else if k = 3 then
        (let attrib_tbl_addr = getAttribTableAddr (ucast (v ppu));
             (attrib_tbl_byte, b') = rd (bus_2C02 ppu) attrib_tbl_addr;
             shift = unat (2 * (drop_bit 1 (v ppu) AND 0x01) + 4 * (drop_bit 6 (v ppu) AND 0x01));
             palatteID = drop_bit shift attrib_tbl_byte AND 0x03
         in ppu\<lparr>pa_latch_low := (if palatteID AND 0x01 \<noteq> 0 then 0xFF else 0x00),
                pa_latch_high := (if palatteID AND 0x02 \<noteq> 0 then 0xFF else 0x00),
                bus_2C02 := b'\<rparr>)
      else if k = 5 then
        (let fine_y = (ucast (drop_bit 12 (v ppu)) :: uint16_t);
             pattern_tbl_addr =
               push_bit 12 (if PPUCTRL_B (PPUCTRL ppu) then 1 else 0)
                 OR push_bit 4 (ucast (name_tbl_byte ppu)) OR fine_y;
             (d, b') = rd (bus_2C02 ppu) pattern_tbl_addr
         in ppu\<lparr>pt_latch_low := d, bus_2C02 := b'\<rparr>)
      else if k = 7 then
        (let fine_y = (ucast (drop_bit 12 (v ppu)) :: uint16_t);
             pattern_tbl_addr =
               push_bit 12 (if PPUCTRL_B (PPUCTRL ppu) then 1 else 0)
                 OR push_bit 4 (ucast (name_tbl_byte ppu)) OR push_bit 3 1 OR fine_y;
             (d, b') = rd (bus_2C02 ppu) pattern_tbl_addr
         in ppu\<lparr>pt_latch_high := d, bus_2C02 := b'\<rparr>)
      else if k = 0 then
        (if cycles ppu = 256
         then ppu\<lparr>v := ucast (fineYinc (ucast (v ppu)))\<rparr>
         else ppu\<lparr>v := ucast (coarseXinc (ucast (v ppu)))\<rparr>)
      else ppu)"

text \<open>\<^verbatim>\<open>void feedShiftRegisters(State2C02* ppu)\<close>, applied to a PPU state.\<close>

definition feedShiftRegisters :: "('b, 'c) State2C02 \<Rightarrow> ('b, 'c) State2C02" where
  "feedShiftRegisters ppu =
     ppu\<lparr>pt_shift_low := (pt_shift_low ppu AND 0x00FF) OR push_bit 8 (ucast (pt_latch_low ppu)),
         pt_shift_high := (pt_shift_high ppu AND 0x00FF) OR push_bit 8 (ucast (pt_latch_high ppu)),
         pa_shift_low := (pa_shift_low ppu AND 0x00FF) OR push_bit 8 (ucast (pa_latch_low ppu)),
         pa_shift_high := (pa_shift_high ppu AND 0x00FF) OR push_bit 8 (ucast (pa_latch_high ppu))\<rparr>"

text \<open>
  \<^verbatim>\<open>clock_2C02\<close> never calls \<^verbatim>\<open>feedShiftRegisters\<close> on the PPU state: both call sites
  pass \<^verbatim>\<open>&ppu\<close>, the address of the local pointer, so the callee reads and writes the
  caller's stack frame as if it were a \<^verbatim>\<open>State2C02\<close>. What that does is outside the C
  semantics; the model stops there with a fault.
\<close>

datatype fault = Feed_Through_Pointer_Address

definition feed_dot :: "int \<Rightarrow> bool" where
  "feed_dot c \<longleftrightarrow> c smod 8 = 1 \<and> ((c \<ge> 9 \<and> c \<le> 257) \<or> (c \<ge> 321 \<and> c \<le> 337))"

definition shift_right_all :: "('b, 'c) State2C02 \<Rightarrow> ('b, 'c) State2C02" where
  "shift_right_all ppu =
     ppu\<lparr>pt_shift_low := drop_bit 1 (pt_shift_low ppu),
         pt_shift_high := drop_bit 1 (pt_shift_high ppu),
         pa_shift_low := drop_bit 1 (pa_shift_low ppu),
         pa_shift_high := drop_bit 1 (pa_shift_high ppu)\<rparr>"

text \<open>The body of \<^verbatim>\<open>if (ppu->scanline == -1)\<close>, the pre-render line.\<close>

definition prerender_line ::
  "'b ppu_bus_read \<Rightarrow> ('b, 'c) State2C02 \<Rightarrow> fault + ('b, 'c) State2C02" where
  "prerender_line rd ppu =
     (if feed_dot (cycles ppu) then Inl Feed_Through_Pointer_Address
      else
        (let ppu1 = (if cycles ppu = 1
                     then ppu\<lparr>PPUSTATUS := set_PPUSTATUS_V False (PPUSTATUS ppu)\<rparr>
                     else ppu)
         in if cycles ppu1 \<ge> 1 \<and> cycles ppu1 < 257 then
              Inr (fetch_data_inc_v rd (shift_right_all ppu1))
            else if cycles ppu1 = 257 then
              Inr (ppu1\<lparr>v := (v ppu1 AND 0x7BE0) OR (t ppu1 AND NOT 0x7BE0)\<rparr>)
            else if cycles ppu1 \<ge> 280 \<and> cycles ppu1 < 305 then
              Inr (ppu1\<lparr>v := (v ppu1 AND 0x041F) OR (t ppu1 AND NOT 0x041F)\<rparr>)
            else if cycles ppu1 \<ge> 321 \<and> cycles ppu1 < 337 then
              Inr (fetch_data_inc_v rd ppu1)
            else Inr ppu1))"

text \<open>
  The body of \<^verbatim>\<open>if (ppu->scanline >= 0 && ppu->scanline < 240)\<close>, a visible line. The
  pixel index \<open>scanline * 256 + cycles - 1\<close> lies in the 256 x 240 framebuffer on this
  branch, and the palette index is masked to 6 bits, inside \<open>PALETTE_MAP\<close>.
\<close>

definition visible_line ::
  "'b ppu_bus_read \<Rightarrow> ('b, 'c) State2C02 \<Rightarrow> fault + ('b, 'c) State2C02" where
  "visible_line rd ppu =
     (if feed_dot (cycles ppu) then Inl Feed_Through_Pointer_Address
      else if cycles ppu \<ge> 1 \<and> cycles ppu < 257 then
        (let shade = ((ucast (drop_bit (unat (x ppu)) (pt_shift_low ppu) AND 0x01)
                       OR push_bit 1 (ucast (drop_bit (unat (x ppu)) (pt_shift_high ppu) AND 0x01))) :: uint8_t);
             palatte = ((ucast (drop_bit (unat (x ppu)) (pa_shift_low ppu) AND 0x01)
                       OR push_bit 1 (ucast (drop_bit (unat (x ppu)) (pa_shift_high ppu) AND 0x01))) :: uint8_t);
             index = scanline ppu * 256 + cycles ppu - 1;
             palatte_addr = (if shade = 0 then 0x3F00
                             else 0x3F00 OR push_bit 2 (ucast palatte) OR ucast shade);
             (d, b') = rd (bus_2C02 ppu) palatte_addr;
             ppu1 = ppu\<lparr>pixels := (pixels ppu)(index := PALETTE_MAP ! unat (d AND 0x3F)),
                       bus_2C02 := b'\<rparr>
         in Inr (fetch_data_inc_v rd (shift_right_all ppu1)))
      else if cycles ppu = 257 then
        Inr (ppu\<lparr>v := (v ppu AND 0x7BE0) OR (t ppu AND NOT 0x7BE0)\<rparr>)
      else if cycles ppu \<ge> 321 \<and> cycles ppu < 337 then
        Inr (fetch_data_inc_v rd ppu)
      else Inr ppu)"

text \<open>The block guarded by \<^verbatim>\<open>if (ppu->PPUMASK.flags.b)\<close>.\<close>

definition rendering ::
  "'b ppu_bus_read \<Rightarrow> ('b, 'c) State2C02 \<Rightarrow> fault + ('b, 'c) State2C02" where
  "rendering rd ppu =
     (if PPUMASK_b (PPUMASK ppu) then
        (case (if scanline ppu = -1 then prerender_line rd ppu else Inr ppu) of
           Inl e \<Rightarrow> Inl e
         | Inr ppu1 \<Rightarrow>
             if scanline ppu1 \<ge> 0 \<and> scanline ppu1 < 240 then visible_line rd ppu1
             else Inr ppu1)
      else Inr ppu)"

text \<open>
  The start of vertical blank, \<^verbatim>\<open>if (ppu->scanline == 241 && ppu->cycles == 1)\<close>. The
  CPU's \<^verbatim>\<open>NMI\<close> entry point and the renderer's \<^verbatim>\<open>LoadPixelDataToScreen\<close> are not among
  the sources: they are the parameters \<open>NMI\<close> and \<open>present\<close>; the renderer's state is
  threaded beside the PPU.
\<close>

definition vblank_start ::
  "('c \<Rightarrow> 'c) \<Rightarrow> ((int \<Rightarrow> color) \<Rightarrow> 'r \<Rightarrow> 'r) \<Rightarrow> ('b, 'c) State2C02 \<times> 'r \<Rightarrow> ('b, 'c) State2C02 \<times> 'r" where
  "vblank_start NMI present = (\<lambda>(ppu, screen).
     if scanline ppu = 241 \<and> cycles ppu = 1 then
       (let ppu1 = ppu\<lparr>PPUSTATUS := set_PPUSTATUS_V True (PPUSTATUS ppu)\<rparr>;
            ppu2 = (if PPUCTRL_V (PPUCTRL ppu1) then ppu1\<lparr>cpu_6502 := NMI (cpu_6502 ppu1)\<rparr> else ppu1)
        in (ppu2, present (pixels ppu2) screen))
     else (ppu, screen))"

text \<open>The increment of the dot and scanline counters at the end of \<^verbatim>\<open>clock_2C02\<close>.\<close>

definition advance_dot :: "('b, 'c) State2C02 \<Rightarrow> ('b, 'c) State2C02" where
  "advance_dot ppu =
     (let ppu1 = ppu\<lparr>cycles := cycles ppu + 1\<rparr> in
      if cycles ppu1 = 341 then
        (let ppu2 = ppu1\<lparr>cycles := 0, scanline := scanline ppu1 + 1\<rparr> in
         if scanline ppu2 = 261
         then ppu2\<lparr>scanline := -1, evenframe := \<not> evenframe ppu2\<rparr>
         else ppu2)
      else ppu1)"

text \<open>\<^verbatim>\<open>void clock_2C02(State2C02* ppu)\<close>.\<close>

definition clock_2C02 ::
  "'b ppu_bus_read \<Rightarrow> ('c \<Rightarrow> 'c) \<Rightarrow> ((int \<Rightarrow> color) \<Rightarrow> 'r \<Rightarrow> 'r) \<Rightarrow>
   ('b, 'c) State2C02 \<times> 'r \<Rightarrow> fault + ('b, 'c) State2C02 \<times> 'r" where
  "clock_2C02 rd NMI present = (\<lambda>(ppu, screen).
     case rendering rd ppu of
       Inl e \<Rightarrow> Inl e
     | Inr ppu1 \<Rightarrow>
         (let (ppu2, screen2) = vblank_start NMI present (ppu1, screen)
          in Inr (advance_dot ppu2, screen2)))"

section \<open>2C02 (PPU): register file\<close>

text \<open>\<^verbatim>\<open>ppu->w = !ppu->w\<close> on the 1-bit toggle.\<close>

definition toggle :: "1 word \<Rightarrow> 1 word" where
  "toggle b = (if b = 0 then 1 else 0)"

text \<open>\<^verbatim>\<open>ppu->v += (ppu->PPUCTRL.flags.I ? 32 : 1)\<close>, on the 15-bit \<open>v\<close>.\<close>

definition vram_increment :: "('b, 'c) State2C02 \<Rightarrow> ('b, 'c) State2C02" where
  "vram_increment ppu = ppu\<lparr>v := v ppu + (if PPUCTRL_I (PPUCTRL ppu) then 32 else 1)\<rparr>"

text \<open>
  \<^verbatim>\<open>void write_ppu(State2C02* ppu, uint16_t addr, uint8_t data)\<close>. The first statement
  copies the low five bits of the data into \<^verbatim>\<open>PPUSTATUS\<close>; the switch on the address
  follows. An address with no case leaves the switch without effect.
\<close>

definition write_ppu ::
  "'b ppu_bus_write \<Rightarrow> ('b, 'c) State2C02 \<Rightarrow> uint16_t \<Rightarrow> uint8_t \<Rightarrow> ('b, 'c) State2C02" where
  "write_ppu wr ppu0 addr data =
     (let ppu = ppu0\<lparr>PPUSTATUS := (PPUSTATUS ppu0 AND 0xE0) OR (data AND 0x1F)\<rparr> in
      if addr = 0x2000 then
        (let ppu1 = ppu\<lparr>PPUCTRL := data\<rparr>;
             ppu2 = ppu1\<lparr>t := t ppu1 AND 0x73FF\<rparr>
         in ppu2\<lparr>t := t ppu2 OR push_bit 10 (ucast (PPUCTRL_N (PPUCTRL ppu2)))\<rparr>)
      else if addr = 0x2001 then ppu\<lparr>PPUMASK := data\<rparr>
      else if addr = 0x2003 then ppu
      else if addr = 0x2004 then ppu
      else if addr = 0x2005 then
        (let ppu1 = ppu\<lparr>PPUSCROLL := data\<rparr>;
             ppu2 =
               (if w ppu1 = 0 then
                  ppu1\<lparr>t := (t ppu1 AND 0x7FE0) OR ucast (drop_bit 3 data),
                        x := ucast (data AND 0x07)\<rparr>
                else if w ppu1 = 1 then
                  ppu1\<lparr>t := ((t ppu1 AND 0x0C1F) OR push_bit 12 (ucast data AND 0x07))
                              OR push_bit 5 (drop_bit 3 (ucast data))\<rparr>
                else ppu1)
         in ppu2\<lparr>w := toggle (w ppu2)\<rparr>)
      else if addr = 0x2006 then
        (let ppu1 = ppu\<lparr>PPUADDR := data\<rparr>;
             ppu2 =
               (if w ppu1 = 0 then
                  ppu1\<lparr>t := (t ppu1 AND 0x00FF) OR push_bit 8 (ucast data AND 0x3F)\<rparr>
                else if w ppu1 = 1 then
                  (let ppu3 = ppu1\<lparr>t := (t ppu1 AND 0x7F00) OR ucast data\<rparr>
                   in ppu3\<lparr>v := t ppu3\<rparr>)
                else ppu1)
         in ppu2\<lparr>w := toggle (w ppu2)\<rparr>)
      else if addr = 0x2007 then
        (let ppu1 = ppu\<lparr>PPUDATA := data\<rparr>;
             ppu2 = ppu1\<lparr>bus_2C02 := wr (bus_2C02 ppu1) (ucast (v ppu1)) data\<rparr>
         in vram_increment ppu2)
      else if addr = 0x4014 then ppu
      else ppu)"

text \<open>
  \<^verbatim>\<open>uint8_t read_ppu(State2C02* ppu, uint16_t addr)\<close>: the byte returned and the state
  after the read. In the case \<^verbatim>\<open>0x2007\<close> the two range tests cover \<open>v < 0x4000\<close>; for a
  larger \<open>v\<close> control leaves the switch and reaches \<^verbatim>\<open>return 0\<close>, as it does for
  \<^verbatim>\<open>0x2004\<close> and for an address with no case.
\<close>

definition read_ppu ::
  "'b ppu_bus_read \<Rightarrow> ('b, 'c) State2C02 \<Rightarrow> uint16_t \<Rightarrow> uint8_t \<times> ('b, 'c) State2C02" where
  "read_ppu rd ppu addr =
     (if addr = 0x2002 then
        (let ppu1 = ppu\<lparr>w := 0\<rparr>;
             ret = PPUSTATUS ppu1
         in (ret, ppu1\<lparr>PPUSTATUS := set_PPUSTATUS_V False (PPUSTATUS ppu1)\<rparr>))
      else if addr = 0x2004 then (0, ppu)
      else if addr = 0x2007 then
        (if v ppu \<ge> 0 \<and> v ppu < 0x3F00 then
           (let ret = PPUDATA ppu;
                (d, b') = rd (bus_2C02 ppu) (ucast (v ppu));
                ppu1 = ppu\<lparr>PPUDATA := d, bus_2C02 := b'\<rparr>
            in (ret, vram_increment ppu1))
         else if v ppu \<ge> 0x3F00 \<and> v ppu < 0x4000 then
           (let (d, b') = rd (bus_2C02 ppu) (0x2000 OR (ucast (v ppu) AND 0x03FF));
                ppu1 = ppu\<lparr>PPUDATA := d, bus_2C02 := b'\<rparr>;
                (ret, b'') = rd (bus_2C02 ppu1) (ucast (v ppu1))
            in (ret, vram_increment (ppu1\<lparr>bus_2C02 := b''\<rparr>)))
         else (0, ppu))
      else (0, ppu))"

section \<open>2C02 (PPU): concrete collaborators and states\<close>

text \<open>
  Instances of the parameters, used where a statement is evaluated on a concrete state:
  a PPU bus that is a flat array of bytes, a CPU that only counts the NMIs raised on it,
  and a renderer that keeps the last frame presented.
\<close>

definition flat_ppu_read :: "(uint16_t \<Rightarrow> uint8_t) ppu_bus_read" where
  "flat_ppu_read m a = (m a, m)"

definition flat_ppu_write :: "(uint16_t \<Rightarrow> uint8_t) ppu_bus_write" where
  "flat_ppu_write m a d = m(a := d)"

definition count_NMI :: "nat \<Rightarrow> nat" where
  "count_NMI n = Suc n"

definition keep_frame :: "(int \<Rightarrow> color) \<Rightarrow> (int \<Rightarrow> color) \<Rightarrow> (int \<Rightarrow> color)" where
  "keep_frame px screen = px"

definition black :: "int \<Rightarrow> color" where
  "black i = (0, 0, 0)"

definition zero_vram :: "uint16_t \<Rightarrow> uint8_t" where
  "zero_vram a = 0"

text \<open>
  A PPU state with every register, latch and shift register zero, at the start of the
  pre-render line (the counters of \<^verbatim>\<open>power_on_2C02\<close>).
\<close>

definition ppu_zero :: "(uint16_t \<Rightarrow> uint8_t, nat) State2C02" where
  "ppu_zero =
     \<lparr>PPUCTRL = 0, PPUMASK = 0, PPUSTATUS = 0, OAMADDR = 0, PPUSCROLL = 0, PPUADDR = 0,
      PPUDATA = 0, v = 0, t = 0, x = 0, w = 0, name_tbl_byte = 0,
      pa_latch_low = 0, pa_latch_high = 0, pt_latch_low = 0, pt_latch_high = 0,
      pt_shift_low = 0, pt_shift_high = 0, pa_shift_low = 0, pa_shift_high = 0,
      scanline = -1, cycles = 0, evenframe = False, pixels = black,
      bus_2C02 = zero_vram, cpu_6502 = 0\<rparr>"

section \<open>CPU bus\<close>

text \<open>
  Modelled from the spec: the declaration of \<^verbatim>\<open>Bus6502\<close> (6502_Bus.h) is not among the
  sources. The bus owns the work RAM \<^verbatim>\<open>memory\<close>, an array of bytes, and points to the PPU
  and to the cartridge (the fields \<^verbatim>\<open>ppu\<close> and \<^verbatim>\<open>cartridge\<close>, modelled by the objects).
  The spec gives the RAM 2 KiB.
\<close>

record ('p, 'k) Bus6502 =
  memory :: "nat \<Rightarrow> uint8_t"
  ppu_2C02 :: 'p
  cartridge :: 'k

definition RAM_SIZE :: nat where
  "RAM_SIZE = 2048"

datatype bus_fault = Ram_Index_Out_Of_Range

text \<open>
  \<^verbatim>\<open>cpu_bus_write\<close>, the variant compiled without \<^verbatim>\<open>BUS_TEST\<close>. The RAM branch masks the
  address with \<^verbatim>\<open>0x0800\<close>, so the index is 0 or 2048; 2048 is one past the end of the
  2 KiB array, and the model stops there with a fault. The PPU branch calls
  \<^verbatim>\<open>write_ppu(bus->ppu, addr)\<close> with two arguments, after \<^verbatim>\<open>addr = 0x2000 + addr & 0x8\<close>
  (which C reads as \<^verbatim>\<open>(0x2000 + addr) & 0x8\<close>); that call and the cartridge's
  \<^verbatim>\<open>CPUWriteCartridge\<close> are the parameters \<open>wp\<close> and \<open>wc\<close>.
\<close>

definition cpu_bus_write ::
  "('p \<Rightarrow> uint16_t \<Rightarrow> 'p) \<Rightarrow> ('k \<Rightarrow> uint16_t \<Rightarrow> uint8_t \<Rightarrow> 'k) \<Rightarrow>
   ('p, 'k) Bus6502 \<Rightarrow> uint16_t \<Rightarrow> uint8_t \<Rightarrow> bus_fault + ('p, 'k) Bus6502" where
  "cpu_bus_write wp wc bus addr data =
     (if addr \<ge> 0x0000 \<and> addr < 0x2000 then
        (let addr1 = addr AND 0x0800 in
         if unat addr1 < RAM_SIZE
         then Inr (bus\<lparr>memory := (memory bus)(unat addr1 := data)\<rparr>)
         else Inl Ram_Index_Out_Of_Range)
      else if addr \<ge> 0x2000 \<and> addr < 0x4000 then
        (let addr1 = (0x2000 + addr) AND 0x8 in
         Inr (bus\<lparr>ppu_2C02 := wp (ppu_2C02 bus) addr1\<rparr>))
      else if addr \<ge> 0x4000 \<and> addr < 0x4018 then Inr bus
      else if addr \<ge> 0x4018 \<and> addr < 0x4020 then Inr bus
      else if addr \<ge> 0x4020 \<and> addr \<le> 0xFFFF then
        Inr (bus\<lparr>cartridge := wc (cartridge bus) addr data\<rparr>)
      else Inr bus)"

text \<open>
  \<^verbatim>\<open>cpu_bus_read\<close>, the variant compiled without \<^verbatim>\<open>BUS_TEST\<close>. Only the RAM branch has a
  \<^verbatim>\<open>return\<close>; on the others control reaches the end of the function and the caller gets
  no value (\<open>None\<close>). The calls \<^verbatim>\<open>read_ppu(bus->ppu, addr)\<close> and \<^verbatim>\<open>CPUReadCartridge\<close>,
  whose results are dropped, are the parameters \<open>rp\<close> and \<open>rc\<close>.
\<close>

definition cpu_bus_read ::
  "('p \<Rightarrow> uint16_t \<Rightarrow> 'p) \<Rightarrow> ('k \<Rightarrow> uint16_t \<Rightarrow> 'k) \<Rightarrow>
   ('p, 'k) Bus6502 \<Rightarrow> uint16_t \<Rightarrow> bus_fault + (uint8_t option \<times> ('p, 'k) Bus6502)" where
  "cpu_bus_read rp rc bus addr =
     (if addr \<ge> 0x0000 \<and> addr < 0x2000 then
        (let addr1 = addr AND 0x0800 in
         if unat addr1 < RAM_SIZE
         then Inr (Some (memory bus (unat addr1)), bus)
         else Inl Ram_Index_Out_Of_Range)
      else if addr \<ge> 0x2000 \<and> addr < 0x4000 then
        (let addr1 = (0x2000 + addr) AND 0x8 in
         Inr (None, bus\<lparr>ppu_2C02 := rp (ppu_2C02 bus) addr1\<rparr>))
      else if addr \<ge> 0x4000 \<and> addr < 0x4018 then Inr (None, bus)
      else if addr \<ge> 0x4018 \<and> addr < 0x4020 then Inr (None, bus)
      else if addr \<ge> 0x4020 \<and> addr \<le> 0xFFFF then
        Inr (None, bus\<lparr>cartridge := rc (cartridge bus) addr\<rparr>)
      else Inr (None, bus))"

text \<open>
  The variant under \<^verbatim>\<open>#if BUS_TEST\<close>: the bus is a flat array indexed by the whole
  address.
\<close>

definition cpu_bus_write_TEST :: "(uint16_t \<Rightarrow> uint8_t) \<Rightarrow> uint16_t \<Rightarrow> uint8_t \<Rightarrow> (uint16_t \<Rightarrow> uint8_t)" where
  "cpu_bus_write_TEST b addr data = b(addr := data)"

definition cpu_bus_read_TEST :: "(uint16_t \<Rightarrow> uint8_t) \<Rightarrow> uint16_t \<Rightarrow> uint8_t" where
  "cpu_bus_read_TEST b addr = b addr"

text \<open>Collaborators without effect, for evaluation.\<close>

definition skip_ppu_call :: "unit \<Rightarrow> uint16_t \<Rightarrow> unit" where
  "skip_ppu_call p a = p"

definition skip_cart_write :: "unit \<Rightarrow> uint16_t \<Rightarrow> uint8_t \<Rightarrow> unit" where
  "skip_cart_write k a d = k"

definition skip_cart_read :: "unit \<Rightarrow> uint16_t \<Rightarrow> unit" where
  "skip_cart_read k a = k"

section \<open>6502 (CPU): state\<close>

text \<open>
  Modelled from the spec: the declaration of \<^verbatim>\<open>State6502\<close> (6502.h) is not among the
  sources. The registers \<open>A\<close>, \<open>X\<close>, \<open>Y\<close>, \<open>SP\<close> and the status register are bytes, \<open>PC\<close>
  is 16-bit; the per-instruction state is an 8-bit \<open>operand\<close>, a 16-bit \<open>addr\<close> and a
  16-bit \<open>indirect_fetch\<close>. \<open>bus_6502\<close> (the field \<^verbatim>\<open>bus\<close>) is the bus the CPU reads and
  writes through.
\<close>

record 'b State6502 =
  A :: uint8_t
  X :: uint8_t
  Y :: uint8_t
  SP :: uint8_t
  status :: uint8_t
  PC :: uint16_t
  operand :: uint8_t
  addr :: uint16_t
  indirect_fetch :: uint16_t
  bus_6502 :: 'b

text \<open>
  Modelled from the spec: \<^verbatim>\<open>status\<close> is a union of the byte \<^verbatim>\<open>reg\<close> and the bit-field view
  \<^verbatim>\<open>flags\<close>, with the layout \<open>N V _ B D I Z C\<close> from bit 7 down to bit 0. Each flag is one
  bit. Where 6502.c assigns a flag a comparison, the value is 0 or 1 and the bit holds
  it, whatever type the field is declared with.
\<close>

definition flag_C :: nat where "flag_C = 0"
definition flag_Z :: nat where "flag_Z = 1"
definition flag_I :: nat where "flag_I = 2"
definition flag_D :: nat where "flag_D = 3"
definition flag_B :: nat where "flag_B = 4"
definition flag_V :: nat where "flag_V = 6"
definition flag_N :: nat where "flag_N = 7"

definition get_flag :: "nat \<Rightarrow> 'b State6502 \<Rightarrow> bool" where
  "get_flag n cpu = bit (status cpu) n"

definition put_flag :: "nat \<Rightarrow> bool \<Rightarrow> 'b State6502 \<Rightarrow> 'b State6502" where
  "put_flag n b cpu =
     cpu\<lparr>status := (if b then set_bit n (status cpu) else unset_bit n (status cpu))\<rparr>"

text \<open>
  One assignment of 6502.c gives a flag an integer that is not 0 or 1 (the overflow flag
  in \<^verbatim>\<open>SBC\<close>). What the 1-bit field then holds depends on the type it is declared with
  in 6502.h, which neither the sources nor the spec give: that conversion is a parameter
  of \<^verbatim>\<open>SBC\<close>. The two conversions C has for a field of width 1 are these: an unsigned
  integer field keeps the value modulo 2, its bit 0; a \<^verbatim>\<open>bool\<close> field holds 1 for every
  non-zero value.
\<close>

type_synonym flag_store = "uint16_t \<Rightarrow> bool"

definition store_unsigned_field :: flag_store where
  "store_unsigned_field e = bit e 0"

definition store_bool_field :: flag_store where
  "store_bool_field e = (e \<noteq> 0)"

text \<open>
  6502.c reaches memory through \<^verbatim>\<open>bus_read(cpu->bus, addr)\<close> and
  \<^verbatim>\<open>bus_write(cpu->bus, addr, data)\<close>, which are not among the sources: they are
  parameters of the model. A read returns the byte and the bus after the access.
\<close>

type_synonym 'b bus_read = "'b \<Rightarrow> uint16_t \<Rightarrow> uint8_t \<times> 'b"
type_synonym 'b bus_write = "'b \<Rightarrow> uint16_t \<Rightarrow> uint8_t \<Rightarrow> 'b"

text \<open>\<^verbatim>\<open>bus_read(cpu->bus, cpu->PC++)\<close>: the byte at \<open>PC\<close>, and \<open>PC\<close> advanced.\<close>

definition fetch_PC :: "'b bus_read \<Rightarrow> 'b State6502 \<Rightarrow> uint8_t \<times> 'b State6502" where
  "fetch_PC rd cpu =
     (let (d, b') = rd (bus_6502 cpu) (PC cpu)
      in (d, cpu\<lparr>PC := PC cpu + 1, bus_6502 := b'\<rparr>))"

text \<open>A pull from the stack: \<^verbatim>\<open>cpu->SP++\<close>, then the byte at \<^verbatim>\<open>0x0100 | SP\<close>.\<close>

definition pull :: "'b bus_read \<Rightarrow> 'b State6502 \<Rightarrow> uint8_t \<times> 'b State6502" where
  "pull rd cpu =
     (let cpu1 = cpu\<lparr>SP := SP cpu + 1\<rparr>;
          (d, b') = rd (bus_6502 cpu1) (0x0100 OR ucast (SP cpu1))
      in (d, cpu1\<lparr>bus_6502 := b'\<rparr>))"

text \<open>A push: the byte is written at \<^verbatim>\<open>0x0100 | SP\<close>, then \<^verbatim>\<open>cpu->SP--\<close>.\<close>

definition push :: "'b bus_write \<Rightarrow> uint8_t \<Rightarrow> 'b State6502 \<Rightarrow> 'b State6502" where
  "push wr d cpu =
     cpu\<lparr>bus_6502 := wr (bus_6502 cpu) (0x0100 OR ucast (SP cpu)) d, SP := SP cpu - 1\<rparr>"

section \<open>6502 (CPU): addressing modes\<close>

text \<open>\<^verbatim>\<open>bool ABS(State6502* cpu)\<close>: absolute addressing.\<close>

definition ABS :: "'b bus_read \<Rightarrow> 'b State6502 \<Rightarrow> bool \<times> 'b State6502" where
  "ABS rd cpu =
     (let (lo, cpu1) = fetch_PC rd cpu;
          addr_low = (ucast lo :: uint16_t);
          (hi, cpu2) = fetch_PC rd cpu1;
          addr_high = (ucast hi :: uint16_t);
          cpu3 = cpu2\<lparr>addr := push_bit 8 addr_high OR addr_low\<rparr>;
          (d, b') = rd (bus_6502 cpu3) (addr cpu3)
      in (False, cpu3\<lparr>operand := d, bus_6502 := b'\<rparr>))"

text \<open>
  \<^verbatim>\<open>bool IND(State6502* cpu)\<close>: indirect addressing. It returns \<open>true\<close> as the tag by
  which \<^verbatim>\<open>JMP\<close> tells it from absolute addressing.
\<close>

definition IND :: "'b bus_read \<Rightarrow> 'b State6502 \<Rightarrow> bool \<times> 'b State6502" where
  "IND rd cpu =
     (let (lo, cpu1) = fetch_PC rd cpu;
          addr_low = (ucast lo :: uint16_t);
          (hi, cpu2) = fetch_PC rd cpu1;
          addr_high = (ucast hi :: uint16_t);
          ptr = push_bit 8 addr_high OR addr_low;
          (d1, b1) = rd (bus_6502 cpu2) (ptr + 1);
          cpu3 = cpu2\<lparr>indirect_fetch := ucast d1, bus_6502 := b1\<rparr>;
          cpu4 = cpu3\<lparr>indirect_fetch := push_bit 8 (indirect_fetch cpu3)\<rparr>;
          (d0, b0) = rd (bus_6502 cpu4) ptr
      in (True, cpu4\<lparr>indirect_fetch := indirect_fetch cpu4 OR ucast d0, bus_6502 := b0\<rparr>))"

text \<open>\<^verbatim>\<open>bool IMP(State6502* cpu)\<close>: implied addressing.\<close>

definition IMP :: "'b State6502 \<Rightarrow> bool \<times> 'b State6502" where
  "IMP cpu = (False, cpu)"

text \<open>\<^verbatim>\<open>bool IMM(State6502* cpu)\<close>: immediate addressing.\<close>

definition IMM :: "'b bus_read \<Rightarrow> 'b State6502 \<Rightarrow> bool \<times> 'b State6502" where
  "IMM rd cpu = (let (d, cpu1) = fetch_PC rd cpu in (False, cpu1\<lparr>operand := d\<rparr>))"

section \<open>6502 (CPU): operations\<close>

text \<open>
  Each operation returns the extra cycles (\<^verbatim>\<open>uint32_t\<close>) and the state. \<^verbatim>\<open>ADC\<close>: the sum is
  formed in 16 bits; the flags are assigned in the order of the source, \<open>V\<close> from the
  accumulator before it is overwritten.
\<close>

definition ADC :: "'b State6502 \<Rightarrow> bool \<Rightarrow> 32 word \<times> 'b State6502" where
  "ADC cpu c =
     (let result = (ucast (A cpu) :: uint16_t) + ucast (operand cpu)
                     + (if get_flag flag_C cpu then 1 else 0);
          cpu1 = put_flag flag_C (result > 255) cpu;
          cpu2 = put_flag flag_Z (result AND 0x00FF = 0) cpu1;
          cpu3 = put_flag flag_N (result AND 0x0080 = 0x0080) cpu2;
          cpu4 = put_flag flag_V
                   (((NOT (ucast (A cpu3) XOR ucast (operand cpu3)) AND (ucast (A cpu3) XOR result))
                       AND 0x0080) = 0x0080) cpu3;
          cpu5 = cpu4\<lparr>A := ucast (result AND 0x00FF)\<rparr>
      in (if c then 1 else 0, cpu5))"

text \<open>
  \<^verbatim>\<open>SBC\<close>: the operand is complemented in its low byte and added. The overflow flag is
  assigned the masked integer \<^verbatim>\<open>(temp ^ A) & (temp ^ value) & 0x0080\<close> itself, with no
  comparison: the value is 0 or 0x80, and the field holds what the conversion \<open>store\<close>
  of its declared type makes of it.
\<close>

definition SBC :: "flag_store \<Rightarrow> 'b State6502 \<Rightarrow> bool \<Rightarrow> 32 word \<times> 'b State6502" where
  "SBC store cpu c =
     (let val = (ucast (operand cpu) :: uint16_t) XOR 0x00FF;
          temp = (ucast (A cpu) :: uint16_t) + val + (if get_flag flag_C cpu then 1 else 0);
          cpu1 = put_flag flag_C (temp AND 0xFF00 \<noteq> 0) cpu;
          cpu2 = put_flag flag_Z (temp AND 0x00FF = 0) cpu1;
          cpu3 = put_flag flag_V
                   (store (((temp XOR ucast (A cpu2)) AND (temp XOR val)) AND 0x0080)) cpu2;
          cpu4 = put_flag flag_N (temp AND 0x0080 = 0x0080) cpu3;
          cpu5 = cpu4\<lparr>A := ucast (temp AND 0x00FF)\<rparr>
      in (if c then 1 else 0, cpu5))"

text \<open>
  \<^verbatim>\<open>JMP\<close>: with the tag set the target is \<open>indirect_fetch\<close>; otherwise \<open>PC\<close> is assigned
  \<^verbatim>\<open>(uint16_t)cpu->operand\<close>, the byte that the addressing mode read at the effective
  address, widened.
\<close>

definition JMP :: "'b State6502 \<Rightarrow> bool \<Rightarrow> 32 word \<times> 'b State6502" where
  "JMP cpu c =
     (if c then (0, cpu\<lparr>PC := indirect_fetch cpu\<rparr>)
      else (0, cpu\<lparr>PC := ucast (operand cpu)\<rparr>))"

text \<open>\<^verbatim>\<open>JSR\<close>: pushes \<open>PC - 1\<close>, high byte first, and continues at \<open>addr\<close>.\<close>

definition JSR :: "'b bus_write \<Rightarrow> 'b State6502 \<Rightarrow> bool \<Rightarrow> 32 word \<times> 'b State6502" where
  "JSR wr cpu c =
     (let cpu1 = cpu\<lparr>PC := PC cpu - 1\<rparr>;
          cpu2 = push wr (ucast (drop_bit 8 (PC cpu1))) cpu1;
          cpu3 = push wr (ucast (PC cpu2 AND 0x00FF)) cpu2
      in (0, cpu3\<lparr>PC := addr cpu3\<rparr>))"

text \<open>
  \<^verbatim>\<open>RTS\<close>: pulls \<open>PCL\<close>, then \<open>PCH\<close>, into 16-bit locals and assigns
  \<^verbatim>\<open>cpu->PC = (PCH << 8) | PCL + 1\<close>. In C \<open>+\<close> binds tighter than \<open>|\<close>: the value is
  \<^verbatim>\<open>(PCH << 8) | (PCL + 1)\<close>, where \<open>PCL + 1\<close> is at most 0x100.
\<close>

definition RTS :: "'b bus_read \<Rightarrow> 'b State6502 \<Rightarrow> bool \<Rightarrow> 32 word \<times> 'b State6502" where
  "RTS rd cpu c =
     (let (lo, cpu1) = pull rd cpu;
          PCL = (ucast lo :: uint16_t);
          (hi, cpu2) = pull rd cpu1;
          PCH = (ucast hi :: uint16_t)
      in (0, cpu2\<lparr>PC := push_bit 8 PCH OR (PCL + 1)\<rparr>))"

text \<open>\<^verbatim>\<open>RTI\<close>: pulls the status register, then \<open>PC\<close> as \<^verbatim>\<open>RTS\<close> does.\<close>

definition RTI :: "'b bus_read \<Rightarrow> 'b State6502 \<Rightarrow> bool \<Rightarrow> 32 word \<times> 'b State6502" where
  "RTI rd cpu c =
     (let (s, cpu0) = pull rd cpu;
          cpu0' = cpu0\<lparr>status := s\<rparr>;
          (lo, cpu1) = pull rd cpu0';
          PCL = (ucast lo :: uint16_t);
          (hi, cpu2) = pull rd cpu1;
          PCH = (ucast hi :: uint16_t)
      in (0, cpu2\<lparr>PC := push_bit 8 PCH OR (PCL + 1)\<rparr>))"

text \<open>
  The two calls of \<^verbatim>\<open>clock\<close> that run an instruction once its table entry is chosen:
  \<^verbatim>\<open>bool b = inst.adressing_mode(cpu); remaining += inst.operation(cpu, b);\<close>
\<close>

definition execute ::
  "('b State6502 \<Rightarrow> bool \<times> 'b State6502) \<Rightarrow> ('b State6502 \<Rightarrow> bool \<Rightarrow> 32 word \<times> 'b State6502) \<Rightarrow>
   'b State6502 \<Rightarrow> 32 word \<times> 'b State6502" where
  "execute adressing_mode operation cpu =
     (let (b, cpu1) = adressing_mode cpu in operation cpu1 b)"

text \<open>
  The table entries \<^verbatim>\<open>{"JMP",JMP,ABS,3}\<close> (opcode 0x4C), \<^verbatim>\<open>{"JMP",JMP,IND,5}\<close> (0x6C),
  \<^verbatim>\<open>{"JSR",JSR,ABS,6}\<close> (0x20), \<^verbatim>\<open>{"RTS",RTS,IMP,6}\<close> (0x60), \<^verbatim>\<open>{"ADC",ADC,IMM,2}\<close> (0x69)
  and \<^verbatim>\<open>{"SBC",SBC,IMM,2}\<close> (0xE9) of \<^verbatim>\<open>opcodes[256]\<close>.
\<close>

definition JMP_ABS :: "'b bus_read \<Rightarrow> 'b State6502 \<Rightarrow> 32 word \<times> 'b State6502" where
  "JMP_ABS rd = execute (ABS rd) JMP"

definition JMP_IND :: "'b bus_read \<Rightarrow> 'b State6502 \<Rightarrow> 32 word \<times> 'b State6502" where
  "JMP_IND rd = execute (IND rd) JMP"

definition JSR_ABS :: "'b bus_read \<Rightarrow> 'b bus_write \<Rightarrow> 'b State6502 \<Rightarrow> 32 word \<times> 'b State6502" where
  "JSR_ABS rd wr = execute (ABS rd) (JSR wr)"

definition RTS_IMP :: "'b bus_read \<Rightarrow> 'b State6502 \<Rightarrow> 32 word \<times> 'b State6502" where
  "RTS_IMP rd = execute IMP (RTS rd)"

definition ADC_IMM :: "'b bus_read \<Rightarrow> 'b State6502 \<Rightarrow> 32 word \<times> 'b State6502" where
  "ADC_IMM rd = execute (IMM rd) ADC"

definition SBC_IMM ::
  "flag_store \<Rightarrow> 'b bus_read \<Rightarrow> 'b State6502 \<Rightarrow> 32 word \<times> 'b State6502" where
  "SBC_IMM store rd = execute (IMM rd) (SBC store)"

section \<open>6502 (CPU): a flat memory and concrete states\<close>

text \<open>The CPU on the flat test bus of 6502_Bus.c.\<close>

definition flat_read :: "(uint16_t \<Rightarrow> uint8_t) bus_read" where
  "flat_read m a = (cpu_bus_read_TEST m a, m)"

definition flat_write :: "(uint16_t \<Rightarrow> uint8_t) bus_write" where
  "flat_write m a d = cpu_bus_write_TEST m a d"

text \<open>A memory given by its non-zero bytes.\<close>

fun mem_of :: "(uint16_t \<times> uint8_t) list \<Rightarrow> uint16_t \<Rightarrow> uint8_t" where
  "mem_of [] a = 0"
| "mem_of ((k, d) # kds) a = (if a = k then d else mem_of kds a)"

text \<open>The registers after \<^verbatim>\<open>power_on\<close> (\<open>status = 0x34\<close>, \<open>SP = 0xFD\<close>), over a given memory.\<close>

definition cpu_power_on :: "(uint16_t \<Rightarrow> uint8_t) \<Rightarrow> (uint16_t \<Rightarrow> uint8_t) State6502" where
  "cpu_power_on m =
     \<lparr>A = 0, X = 0, Y = 0, SP = 0xFD, status = 0x34, PC = 0, operand = 0, addr = 0,
      indirect_fetch = 0, bus_6502 = m\<rparr>"

section \<open>Concrete inputs\<close>

text \<open>A work RAM in which every byte holds its own index (modulo 256).\<close>

definition index_ram :: "(unit, unit) Bus6502" where
  "index_ram = \<lparr>memory = (\<lambda>i. of_nat i), ppu_2C02 = (), cartridge = ()\<rparr>"

text \<open>
  The stack after a \<^verbatim>\<open>JSR\<close> whose last byte lies at \<open>0x81FF\<close>: the return address minus one,
  \<open>0x81FF\<close>, is on the stack (low byte at \<open>0x01FE\<close>, high byte at \<open>0x01FF\<close>) and \<open>SP\<close> is
  \<open>0xFD\<close>.
\<close>

definition cpu_before_RTS :: "(uint16_t \<Rightarrow> uint8_t) State6502" where
  "cpu_before_RTS = cpu_power_on (mem_of [(0x01FE, 0xFF), (0x01FF, 0x81)])"

text \<open>
  The instruction \<^verbatim>\<open>JMP $9000\<close> at \<open>0x8000\<close> (bytes \<open>4C 00 90\<close>), a \<^verbatim>\<open>NOP\<close> (\<open>EA\<close>) at the
  target, and \<open>PC\<close> after the opcode fetch.
\<close>

definition cpu_at_JMP :: "(uint16_t \<Rightarrow> uint8_t) State6502" where
  "cpu_at_JMP =
     (cpu_power_on (mem_of [(0x8000, 0x4C), (0x8001, 0x00), (0x8002, 0x90), (0x9000, 0xEA)]))
       \<lparr>PC := 0x8001\<rparr>"

text \<open>\<open>A = 0x80\<close> (-128) with the carry set, about to subtract 1: a signed overflow.\<close>

definition cpu_minus_128 :: "(uint16_t \<Rightarrow> uint8_t) State6502" where
  "cpu_minus_128 = (cpu_power_on (mem_of []))\<lparr>A := 0x80, status := 0x35\<rparr>"

text \<open>
  Dot 1 of scanline 241 with rendering disabled and NMI generation enabled, and with
  rendering enabled and NMI generation disabled.
\<close>

definition ppu_vblank_nmi :: "(uint16_t \<Rightarrow> uint8_t, nat) State2C02" where
  "ppu_vblank_nmi = ppu_zero\<lparr>scanline := 241, cycles := 1, PPUCTRL := 0x80\<rparr>"

definition ppu_vblank_rendering :: "(uint16_t \<Rightarrow> uint8_t, nat) State2C02" where
  "ppu_vblank_rendering = ppu_zero\<lparr>scanline := 241, cycles := 1, PPUMASK := 0x08\<rparr>"

text \<open>Dot 1 of the pre-render line with \<open>PPUSTATUS.V\<close> set and rendering disabled.\<close>

definition ppu_prerender_off :: "(uint16_t \<Rightarrow> uint8_t, nat) State2C02" where
  "ppu_prerender_off = ppu_zero\<lparr>cycles := 1, PPUSTATUS := 0x80\<rparr>"

text \<open>
  The PPU after four register writes from the zero state: \<open>0x2005 \<leftarrow> 0\<close>,
  \<open>0x2005 \<leftarrow> 4\<close> (fine Y = 4, so bit 14 of \<open>t\<close> is set), \<open>0x2005 \<leftarrow> 0\<close> and then
  \<open>0x2006 \<leftarrow> 0\<close>, which arrives with \<open>w = 1\<close> and copies \<open>t\<close> into \<open>v\<close>.
\<close>

definition ppu_after_scroll_writes :: "(uint16_t \<Rightarrow> uint8_t, nat) State2C02" where
  "ppu_after_scroll_writes =
     write_ppu flat_ppu_write
       (write_ppu flat_ppu_write
         (write_ppu flat_ppu_write
           (write_ppu flat_ppu_write ppu_zero 0x2005 0) 0x2005 4) 0x2005 0) 0x2006 0"

section \<open>Supporting lemmas: words and masks\<close>

lemma mask_numerals:
  "(0x00FF :: 15 word) = mask 8"
  "(0x3F :: 15 word) = mask 6"
  "(0x3F :: 8 word) = mask 6"
  "(0x7F00 :: 15 word) = NOT (mask 8)"
  by (simp_all add: mask_eq_exp_minus_1)

lemma status_low_bits:
  "((s AND 0xE0) OR (d AND 0x1F)) AND 0x1F = d AND (0x1F :: uint8_t)"
  by (simp add: bit.conj_disj_distrib2 and.assoc)

lemma status_high_bits:
  "((s AND 0xE0) OR (d AND 0x1F)) AND 0xE0 = s AND (0xE0 :: uint8_t)"
  by (simp add: bit.conj_disj_distrib2 and.assoc)

lemma not_bit7_and_7F: "\<not> bit (s AND (0x7F :: uint8_t)) 7"
  by (simp add: bit_and_iff bit_iff_odd_drop_bit)

lemma bit7_or_80: "bit (s OR (0x80 :: uint8_t)) 7"
  by (simp add: bit_or_iff)

lemma below_3F00_below_4000: "(a :: 15 word) < 0x3F00 \<Longrightarrow> a < 0x4000"
  by (erule order.strict_trans) simp

lemma ppuaddr_first_write_bits_8_13:
  "take_bit 6 (drop_bit 8 ((tt AND 0x00FF) OR push_bit 8 (ucast d AND 0x3F))) =
     (ucast (d AND (0x3F :: uint8_t)) :: 15 word)"
  unfolding mask_numerals
  by (rule bit_word_eqI) (auto simp add: bit_simps)

lemma ppuaddr_first_write_bit_14:
  "\<not> bit ((tt AND 0x00FF) OR push_bit 8 (ucast (d :: uint8_t) AND 0x3F) :: 15 word) 14"
  unfolding mask_numerals
  by (auto simp add: bit_simps)

lemma ppuaddr_second_write_low_byte:
  "take_bit 8 ((tt AND 0x7F00) OR ucast (d :: uint8_t) :: 15 word) = ucast d"
  unfolding mask_numerals
  by (rule bit_word_eqI) (auto simp add: bit_simps dest: bit_imp_le_length)

lemma bit_2048_int: "bit (0x0800 :: int) n \<longleftrightarrow> n = 11"
  using bit_exp_iff [where ?'a = int and m = 11 and n = n] by auto

lemma and_0800_cases: "(a :: uint16_t) AND 0x0800 = (if bit a 11 then 0x0800 else 0)"
  by (rule bit_word_eqI) (auto simp add: bit_and_iff bit_2048_int)

lemma bit_128_int: "bit (0x0080 :: int) n \<longleftrightarrow> n = 7"
  using bit_exp_iff [where ?'a = int and m = 7 and n = n] by auto

lemma bit_80_7: "bit (0x0080 :: uint16_t) 7"
  by (simp add: bit_128_int)

lemma not_bit_80_0: "\<not> bit (0x0080 :: uint16_t) 0"
  by (simp add: bit_128_int)

lemma and_0080_cases: "(e :: uint16_t) AND 0x0080 = (if bit e 7 then 0x0080 else 0)"
  by (rule bit_word_eqI) (auto simp add: bit_and_iff bit_128_int)

lemma and_80_eq_80_iff: "((e :: uint16_t) AND 0x0080 = 0x0080) = bit e 7"
  by (simp add: and_0080_cases)

lemma and_80_neq_0_iff: "((e :: uint16_t) AND 0x0080 \<noteq> 0) = bit e 7"
  by (simp add: and_0080_cases)

lemma above_255_iff: "((r :: uint16_t) > 255) = (r AND 0xFF00 \<noteq> 0)"
proof -
  have m: "(0xFF00 :: uint16_t) = NOT (mask 8)"
    by (simp add: mask_eq_exp_minus_1)
  have "(r AND NOT (mask 8) = 0) = (r AND mask 8 = r)"
    by (auto simp add: bit_eq_iff bit_simps)
  moreover have "(r AND mask 8 = r) = (r < 2 ^ 8)"
    by (rule mask_eq_iff_w2p) (simp add: word_size)
  moreover have "(r < 2 ^ 8) = (\<not> r > 255)"
    by (simp add: word_less_nat_alt) arith
  ultimately show ?thesis unfolding m by simp
qed

lemma ucast_xor_FF: "(ucast ((r :: uint8_t) XOR 0xFF) :: uint16_t) = ucast r XOR 0x00FF"
proof -
  have m: "(0xFF :: uint8_t) = mask 8" "(0x00FF :: uint16_t) = mask 8"
    by (simp_all add: mask_eq_exp_minus_1)
  show ?thesis unfolding m
    by (rule bit_word_eqI) (auto simp add: bit_simps dest: bit_imp_le_length)
qed

lemma byte_below_FF:
  assumes "lo \<noteq> (0xFF :: uint8_t)"
  shows "unat lo < 255"
proof -
  have "unat lo < 256" using unsigned_less [of lo, where ?'a = nat] by simp
  moreover have "unat lo \<noteq> 255"
  proof
    assume "unat lo = 255"
    then have "lo = 0xFF" by (simp add: word_unat_eq_iff)
    with assms show False by simp
  qed
  ultimately show ?thesis by arith
qed

lemma low_byte_succ:
  assumes "lo \<noteq> (0xFF :: uint8_t)"
  shows "(ucast lo + 1 :: uint16_t) = ucast (lo + 1)"
proof -
  have b: "unat lo < 255" using assms by (rule byte_below_FF)
  have u: "unat (ucast z :: uint16_t) = unat z" for z :: uint8_t
    using unsigned_less [of z, where ?'a = nat]
    by (simp add: unsigned_ucast_eq take_bit_nat_eq_self)
  have "unat (ucast lo + 1 :: uint16_t) = unat lo + 1"
    using b by (simp add: unat_word_ariths u)
  moreover have "unat (ucast (lo + 1) :: uint16_t) = unat lo + 1"
    using b by (simp add: unat_word_ariths u)
  ultimately show ?thesis by (simp add: word_unat_eq_iff)
qed

lemma high_low_disjoint:
  "push_bit 8 (ucast (hi :: uint8_t)) AND (ucast (z :: uint8_t) :: uint16_t) = 0"
  by (rule bit_word_eqI) (auto simp add: bit_simps dest: bit_imp_le_length)

text \<open>When the low byte is not \<open>0xFF\<close>, adding one before or after the OR is the same.\<close>

lemma or_low_byte_succ:
  assumes "lo \<noteq> (0xFF :: uint8_t)"
  shows "push_bit 8 (ucast (hi :: uint8_t)) OR (ucast lo + 1) =
         (push_bit 8 (ucast hi) OR ucast lo) + (1 :: uint16_t)"
proof -
  have "push_bit 8 (ucast hi) OR (ucast lo + 1 :: uint16_t) =
        push_bit 8 (ucast hi) + ucast (lo + 1)"
    by (simp add: low_byte_succ [OF assms] disjunctive_add_eq_or [OF high_low_disjoint])
  also have "\<dots> = (push_bit 8 (ucast hi) + ucast lo) + 1"
    by (simp add: low_byte_succ [OF assms, symmetric])
  also have "\<dots> = (push_bit 8 (ucast hi) OR ucast lo) + 1"
    by (simp add: disjunctive_add_eq_or [OF high_low_disjoint])
  finally show ?thesis .
qed

section \<open>Supporting lemmas: what the PPU clock leaves unchanged\<close>

lemma fetch_data_inc_v_frame:
  "PPUSTATUS (fetch_data_inc_v rd ppu) = PPUSTATUS ppu"
  "PPUCTRL (fetch_data_inc_v rd ppu) = PPUCTRL ppu"
  "PPUMASK (fetch_data_inc_v rd ppu) = PPUMASK ppu"
  "scanline (fetch_data_inc_v rd ppu) = scanline ppu"
  "cycles (fetch_data_inc_v rd ppu) = cycles ppu"
  "cpu_6502 (fetch_data_inc_v rd ppu) = cpu_6502 ppu"
  "pixels (fetch_data_inc_v rd ppu) = pixels ppu"
  by (simp_all add: fetch_data_inc_v_def Let_def split: prod.splits)

lemma shift_right_all_frame:
  "PPUSTATUS (shift_right_all ppu) = PPUSTATUS ppu"
  "PPUCTRL (shift_right_all ppu) = PPUCTRL ppu"
  "PPUMASK (shift_right_all ppu) = PPUMASK ppu"
  "scanline (shift_right_all ppu) = scanline ppu"
  "cycles (shift_right_all ppu) = cycles ppu"
  "cpu_6502 (shift_right_all ppu) = cpu_6502 ppu"
  "pixels (shift_right_all ppu) = pixels ppu"
  by (simp_all add: shift_right_all_def)

lemma advance_dot_frame:
  "PPUSTATUS (advance_dot ppu) = PPUSTATUS ppu"
  "PPUCTRL (advance_dot ppu) = PPUCTRL ppu"
  "PPUMASK (advance_dot ppu) = PPUMASK ppu"
  "cpu_6502 (advance_dot ppu) = cpu_6502 ppu"
  by (simp_all add: advance_dot_def Let_def)

text \<open>
  At dot 1 of the pre-render line the latches are not fed (the feed starts at dot 9), the
  flag is cleared, the shift registers move and the nametable byte is fetched.
\<close>

lemma prerender_line_dot_1:
  assumes "cycles ppu = 1"
  shows "prerender_line rd ppu =
         Inr (fetch_data_inc_v rd (shift_right_all (ppu\<lparr>PPUSTATUS := PPUSTATUS ppu AND 0x7F\<rparr>)))"
  using assms by (simp add: prerender_line_def feed_dot_def set_PPUSTATUS_V_def Let_def)

lemma rendering_prerender_dot_1:
  assumes "scanline ppu = -1" and "cycles ppu = 1"
  shows "rendering rd ppu =
         (if PPUMASK_b (PPUMASK ppu)
          then Inr (fetch_data_inc_v rd (shift_right_all (ppu\<lparr>PPUSTATUS := PPUSTATUS ppu AND 0x7F\<rparr>)))
          else Inr ppu)"
  using assms
  by (simp add: rendering_def prerender_line_dot_1 fetch_data_inc_v_frame shift_right_all_frame)

text \<open>On scanline 241 the block guarded by \<open>PPUMASK.b\<close> does nothing, whatever the mask.\<close>

lemma rendering_scanline_241:
  assumes "scanline ppu = 241"
  shows "rendering rd ppu = Inr ppu"
  using assms by (simp add: rendering_def)

section \<open>Supporting lemmas: the status flags of the CPU\<close>

lemma put_flag_frame:
  "A (put_flag n b cpu) = A cpu"
  "operand (put_flag n b cpu) = operand cpu"
  by (simp_all add: put_flag_def)

lemma get_put_flag:
  "get_flag m (put_flag n b cpu) = (if m = n then b \<and> n < 8 else get_flag m cpu)"
  by (auto simp add: get_flag_def put_flag_def bit_simps dest: bit_imp_le_length)

lemma get_flag_update:
  "get_flag n (cpu\<lparr>A := a\<rparr>) = get_flag n cpu"
  "get_flag n (cpu\<lparr>operand := d\<rparr>) = get_flag n cpu"
  by (simp_all add: get_flag_def)

section \<open>RTS and the carry into the high byte\<close>

text \<open>
  What \<^verbatim>\<open>RTS\<close> computes, for every state and bus: the high byte pulled, shifted, OR-ed with
  the low byte pulled plus one.
\<close>

lemma RTS_PC:
  "PC (snd (RTS rd cpu c)) =
     push_bit 8 (ucast (fst (pull rd (snd (pull rd cpu)))))
       OR (ucast (fst (pull rd cpu)) + 1)"
  by (simp add: RTS_def Let_def split: prod.splits)

text \<open>
  The value is the pulled 16-bit address plus one whenever the low byte pulled is not
  \<open>0xFF\<close>.
\<close>

lemma RTS_PC_without_carry:
  assumes "fst (pull rd cpu) \<noteq> 0xFF"
  shows "PC (snd (RTS rd cpu c)) =
           (push_bit 8 (ucast (fst (pull rd (snd (pull rd cpu)))))
              OR ucast (fst (pull rd cpu))) + 1"
  by (simp only: RTS_PC or_low_byte_succ [OF assms])

text \<open>
  C1: \<^verbatim>\<open>RTS\<close> sets \<open>PC\<close> to \<open>((PCH << 8) | PCL) + 1\<close>, carrying into the high byte when
  \<open>PCL = 0xFF\<close>. With \<open>0x81FF\<close> on the stack (\<open>PCL = 0xFF\<close>, \<open>PCH = 0x81\<close>) the code leaves
  \<open>PC = 0x8100\<close>: \<open>PCL + 1 = 0x100\<close> is OR-ed onto bit 8 of the high byte, which is
  already set. The 16-bit increment of the claim gives \<open>0x8200\<close>.
\<close>

theorem C1_RTS_carry_lost:
  "fst (pull flat_read cpu_before_RTS) = 0xFF \<and>
   fst (pull flat_read (snd (pull flat_read cpu_before_RTS))) = 0x81 \<and>
   PC (snd (RTS_IMP flat_read cpu_before_RTS)) = 0x8100 \<and>
   (push_bit 8 0x81 OR 0xFF) + 1 = (0x8200 :: uint16_t)"
  by (simp add: RTS_IMP_def execute_def IMP_def RTS_def pull_def flat_read_def
      cpu_bus_read_TEST_def cpu_before_RTS_def cpu_power_on_def Let_def)

section \<open>JMP with absolute addressing\<close>

text \<open>
  For every state and bus, \<^verbatim>\<open>JMP\<close> after \<^verbatim>\<open>ABS\<close> leaves in \<open>PC\<close> the byte read at the
  effective address, so a value below \<open>0x100\<close>; the effective address itself stays in
  \<open>addr\<close>. \<^verbatim>\<open>JSR\<close>, on the same addressing mode, continues at \<open>addr\<close>.
\<close>

lemma JMP_ABS_PC:
  "PC (snd (JMP_ABS rd cpu)) = ucast (operand (snd (ABS rd cpu)))"
  by (simp add: JMP_ABS_def execute_def ABS_def JMP_def Let_def split: prod.splits)

lemma JSR_ABS_PC:
  "PC (snd (JSR_ABS rd wr cpu)) = addr (snd (ABS rd cpu))"
  by (simp add: JSR_ABS_def execute_def ABS_def JSR_def push_def Let_def split: prod.splits)

text \<open>
  C2: \<^verbatim>\<open>JMP\<close> with absolute addressing sets \<open>PC\<close> to the address in its two operand bytes.
  For \<^verbatim>\<open>JMP $9000\<close> the effective address is computed as \<open>0x9000\<close>, and \<open>PC\<close> becomes
  \<open>0x00EA\<close>, the byte stored at \<open>0x9000\<close>.
\<close>

theorem C2_JMP_ABS_takes_operand_byte:
  "addr (snd (ABS flat_read cpu_at_JMP)) = 0x9000 \<and>
   operand (snd (ABS flat_read cpu_at_JMP)) = 0xEA \<and>
   PC (snd (JMP_ABS flat_read cpu_at_JMP)) = 0x00EA"
  by (simp add: JMP_ABS_def execute_def ABS_def JMP_def fetch_PC_def flat_read_def
      cpu_bus_read_TEST_def cpu_at_JMP_def cpu_power_on_def Let_def)

section \<open>Work RAM on the CPU bus\<close>

text \<open>
  For every address of the RAM range the index is the address masked with \<open>0x0800\<close>:
  index 0 when bit 11 is clear, and 2048, outside the array, when it is set.
\<close>

lemma cpu_bus_write_ram:
  "a < 0x2000 \<Longrightarrow>
   cpu_bus_write wp wc bus a d =
     (if bit a 11 then Inl Ram_Index_Out_Of_Range
      else Inr (bus\<lparr>memory := (memory bus)(0 := d)\<rparr>))"
  by (simp add: cpu_bus_write_def RAM_SIZE_def Let_def and_0800_cases)

lemma cpu_bus_read_ram:
  "a < 0x2000 \<Longrightarrow>
   cpu_bus_read rp rc bus a =
     (if bit a 11 then Inl Ram_Index_Out_Of_Range
      else Inr (Some (memory bus 0), bus))"
  by (simp add: cpu_bus_read_def RAM_SIZE_def Let_def and_0800_cases)

text \<open>
  C3: in the range \<open>0x0000\<close>-\<open>0x1FFF\<close> a write stores at index \<open>a & 0x07FF\<close> and a read
  returns the byte at that index. At \<open>a = 0x0001\<close> the index of the claim is 1; the code
  writes index 0 and leaves index 1 as it was, and reads index 0.
\<close>

theorem C3_ram_index_is_masked_with_0800:
  "unat (0x0001 AND 0x07FF :: uint16_t) = 1 \<and>
   cpu_bus_write skip_ppu_call skip_cart_write index_ram 0x0001 0x42 =
     Inr (index_ram\<lparr>memory := (memory index_ram)(0 := 0x42)\<rparr>) \<and>
   ((memory index_ram)(0 := 0x42)) 1 = 1 \<and>
   memory index_ram 1 = 1 \<and>
   cpu_bus_read skip_ppu_call skip_cart_read index_ram 0x0001 = Inr (Some 0, index_ram)"
  by (simp add: cpu_bus_write_def cpu_bus_read_def RAM_SIZE_def Let_def index_ram_def)

section \<open>SBC and ADC of the complement\<close>

text \<open>
  For every state and every conversion of the overflow assignment, \<^verbatim>\<open>SBC\<close> agrees with
  \<^verbatim>\<open>ADC\<close> of the complemented operand on the accumulator, on \<open>C\<close>, \<open>Z\<close> and \<open>N\<close>, and on
  the extra cycles.
\<close>

lemma SBC_ADC_agree:
  "A (snd (SBC store cpu c)) = A (snd (ADC (cpu\<lparr>operand := operand cpu XOR 0xFF\<rparr>) c))"
  "get_flag flag_C (snd (SBC store cpu c)) =
     get_flag flag_C (snd (ADC (cpu\<lparr>operand := operand cpu XOR 0xFF\<rparr>) c))"
  "get_flag flag_Z (snd (SBC store cpu c)) =
     get_flag flag_Z (snd (ADC (cpu\<lparr>operand := operand cpu XOR 0xFF\<rparr>) c))"
  "get_flag flag_N (snd (SBC store cpu c)) =
     get_flag flag_N (snd (ADC (cpu\<lparr>operand := operand cpu XOR 0xFF\<rparr>) c))"
  "fst (SBC store cpu c) = fst (ADC (cpu\<lparr>operand := operand cpu XOR 0xFF\<rparr>) c)"
  by (simp_all add: SBC_def ADC_def Let_def get_put_flag put_flag_frame ucast_xor_FF
      above_255_iff get_flag_update flag_C_def flag_Z_def flag_V_def flag_N_def)

text \<open>
  The overflow flag after \<^verbatim>\<open>SBC\<close> is the conversion of the masked integer, and after
  \<^verbatim>\<open>ADC\<close> of the complemented operand it is bit 7 of the same integer.
\<close>

lemma SBC_overflow_flag:
  "get_flag flag_V (snd (SBC store cpu c)) =
     store (((ucast (A cpu) + (ucast (operand cpu) XOR 0x00FF) + (if get_flag flag_C cpu then 1 else 0)
                XOR ucast (A cpu))
             AND (ucast (A cpu) + (ucast (operand cpu) XOR 0x00FF) + (if get_flag flag_C cpu then 1 else 0)
                XOR (ucast (operand cpu) XOR 0x00FF)))
            AND 0x0080)"
  by (simp add: SBC_def Let_def get_put_flag put_flag_frame get_flag_update
      flag_C_def flag_Z_def flag_V_def flag_N_def)

lemma ADC_overflow_flag:
  "get_flag flag_V (snd (ADC (cpu\<lparr>operand := operand cpu XOR 0xFF\<rparr>) c)) =
     bit (((ucast (A cpu) + (ucast (operand cpu) XOR 0x00FF) + (if get_flag flag_C cpu then 1 else 0)
                XOR ucast (A cpu))
             AND (ucast (A cpu) + (ucast (operand cpu) XOR 0x00FF) + (if get_flag flag_C cpu then 1 else 0)
                XOR (ucast (operand cpu) XOR 0x00FF)))
            AND (0x0080 :: uint16_t)) 7"
  by (simp add: ADC_def Let_def get_put_flag put_flag_frame get_flag_update ucast_xor_FF
      flag_C_def flag_Z_def flag_V_def flag_N_def and_80_eq_80_iff bit_and_iff bit_xor_iff
      bit_not_iff bit_80_7)
    blast

text \<open>
  With a \<^verbatim>\<open>bool\<close> field the overflow flag agrees too, for every state; with an unsigned
  field \<^verbatim>\<open>SBC\<close> never sets it.
\<close>

lemma SBC_bool_field_agrees_on_V:
  "get_flag flag_V (snd (SBC store_bool_field cpu c)) =
     get_flag flag_V (snd (ADC (cpu\<lparr>operand := operand cpu XOR 0xFF\<rparr>) c))"
  by (simp only: SBC_overflow_flag ADC_overflow_flag store_bool_field_def and_80_neq_0_iff
      bit_and_iff bit_80_7 simp_thms)

lemma SBC_unsigned_field_V_clear:
  "\<not> get_flag flag_V (snd (SBC store_unsigned_field cpu c))"
  by (simp only: SBC_overflow_flag store_unsigned_field_def bit_and_iff not_bit_80_0 simp_thms)

text \<open>
  The two conversions on one state: from \<open>A = 0x80\<close> with the carry set, subtracting 1
  (-128 - 1, a signed overflow). \<^verbatim>\<open>ADC\<close> of \<open>0xFE\<close> sets \<open>V\<close>; \<^verbatim>\<open>SBC\<close> of \<open>0x01\<close> sets it
  with a \<^verbatim>\<open>bool\<close> field and leaves it clear with an unsigned one.
\<close>

lemma SBC_overflow_at_minus_128:
  "get_flag flag_V (snd (ADC (cpu_minus_128\<lparr>operand := 0x01 XOR 0xFF\<rparr>) False)) \<and>
   get_flag flag_V (snd (SBC store_bool_field (cpu_minus_128\<lparr>operand := 0x01\<rparr>) False)) \<and>
   \<not> get_flag flag_V (snd (SBC store_unsigned_field (cpu_minus_128\<lparr>operand := 0x01\<rparr>) False))"
  by (simp add: ADC_def SBC_def put_flag_def get_flag_def cpu_minus_128_def cpu_power_on_def
      Let_def store_unsigned_field_def store_bool_field_def
      flag_C_def flag_Z_def flag_V_def flag_N_def
      set_bit_eq_or unset_bit_eq_and_not bit_iff_odd_drop_bit)

section \<open>The start of vertical blank\<close>

text \<open>
  C5: for every PPU state with \<open>scanline = 241\<close> and \<open>cycles = 1\<close>, whatever \<open>PPUMASK\<close> holds,
  one call of \<^verbatim>\<open>clock_2C02\<close> returns with \<open>PPUSTATUS.V\<close> set, and the CPU has received an NMI
  exactly when \<open>PPUCTRL.V\<close> is set: it is \<open>NMI\<close> applied to the CPU in that case and the
  CPU unchanged otherwise.
\<close>

theorem C5_vblank_sets_V_and_raises_NMI:
  assumes "scanline ppu = 241" and "cycles ppu = 1"
  shows "\<exists>ppu' screen'.
           clock_2C02 rd NMI present (ppu, screen) = Inr (ppu', screen') \<and>
           PPUSTATUS_V (PPUSTATUS ppu') \<and>
           cpu_6502 ppu' = (if PPUCTRL_V (PPUCTRL ppu) then NMI (cpu_6502 ppu) else cpu_6502 ppu)"
  using assms
  by (simp add: clock_2C02_def rendering_scanline_241 vblank_start_def advance_dot_frame
      Let_def PPUSTATUS_V_def set_PPUSTATUS_V_def bit7_or_80)

text \<open>
  The theorem at two states on dot 1 of scanline 241. With rendering disabled and
  \<open>PPUCTRL.V\<close> set the counting CPU has received one NMI; with rendering enabled and
  \<open>PPUCTRL.V\<close> clear it has received none. \<open>PPUSTATUS.V\<close> is set in both.
\<close>

theorem C5_vblank_witness:
  "scanline ppu_vblank_nmi = 241 \<and> cycles ppu_vblank_nmi = 1 \<and>
   \<not> PPUMASK_b (PPUMASK ppu_vblank_nmi) \<and>
   (\<exists>ppu' screen'.
      clock_2C02 flat_ppu_read count_NMI keep_frame (ppu_vblank_nmi, black) = Inr (ppu', screen') \<and>
      PPUSTATUS_V (PPUSTATUS ppu') \<and> cpu_6502 ppu' = 1) \<and>
   scanline ppu_vblank_rendering = 241 \<and> cycles ppu_vblank_rendering = 1 \<and>
   PPUMASK_b (PPUMASK ppu_vblank_rendering) \<and>
   (\<exists>ppu' screen'.
      clock_2C02 flat_ppu_read count_NMI keep_frame (ppu_vblank_rendering, black) = Inr (ppu', screen') \<and>
      PPUSTATUS_V (PPUSTATUS ppu') \<and> cpu_6502 ppu' = 0)"
proof -
  have a: "scanline ppu_vblank_nmi = 241" "cycles ppu_vblank_nmi = 1"
    by (simp_all add: ppu_vblank_nmi_def)
  have b: "scanline ppu_vblank_rendering = 241" "cycles ppu_vblank_rendering = 1"
    by (simp_all add: ppu_vblank_rendering_def)
  have c: "PPUCTRL_V (PPUCTRL ppu_vblank_nmi)" "cpu_6502 ppu_vblank_nmi = 0"
    "\<not> PPUMASK_b (PPUMASK ppu_vblank_nmi)"
    by (simp_all add: ppu_vblank_nmi_def ppu_zero_def PPUCTRL_V_def PPUMASK_b_def)
  have d: "\<not> PPUCTRL_V (PPUCTRL ppu_vblank_rendering)" "cpu_6502 ppu_vblank_rendering = 0"
    "PPUMASK_b (PPUMASK ppu_vblank_rendering)"
    by (simp_all add: ppu_vblank_rendering_def ppu_zero_def PPUCTRL_V_def PPUMASK_b_def)
  show ?thesis
    using C5_vblank_sets_V_and_raises_NMI [OF a, of flat_ppu_read count_NMI keep_frame black]
      C5_vblank_sets_V_and_raises_NMI [OF b, of flat_ppu_read count_NMI keep_frame black]
    by (simp add: a b c d count_NMI_def)
qed

section \<open>The PPUADDR write protocol\<close>

text \<open>
  C6: for every PPU state with \<open>w = 0\<close> and every byte \<open>d1\<close>, a write of \<open>d1\<close> to \<open>0x2006\<close>
  sets bits 8-13 of \<open>t\<close> to \<open>d1 & 0x3F\<close>, clears bit 14 of \<open>t\<close> and toggles \<open>w\<close> to 1; a
  following write of any byte \<open>d2\<close> to \<open>0x2006\<close> sets the low 8 bits of \<open>t\<close> to \<open>d2\<close> and
  makes \<open>v\<close> equal to \<open>t\<close>; and a read of \<open>0x2002\<close>, in any state, sets \<open>w\<close> to 0.
\<close>

theorem C6_PPUADDR_two_writes:
  assumes "w ppu = 0"
  shows "take_bit 6 (drop_bit 8 (t (write_ppu wr ppu 0x2006 d1))) = ucast (d1 AND 0x3F) \<and>
         \<not> bit (t (write_ppu wr ppu 0x2006 d1)) 14 \<and>
         w (write_ppu wr ppu 0x2006 d1) = 1 \<and>
         take_bit 8 (t (write_ppu wr (write_ppu wr ppu 0x2006 d1) 0x2006 d2)) = ucast d2 \<and>
         v (write_ppu wr (write_ppu wr ppu 0x2006 d1) 0x2006 d2) =
           t (write_ppu wr (write_ppu wr ppu 0x2006 d1) 0x2006 d2) \<and>
         w (snd (read_ppu rd q 0x2002)) = 0"
proof -
  let ?p1 = "write_ppu wr ppu 0x2006 d1"
  have t1: "t ?p1 = (t ppu AND 0x00FF) OR push_bit 8 (ucast d1 AND 0x3F)"
    using assms by (simp add: write_ppu_def Let_def)
  have w1: "w ?p1 = 1"
    using assms by (simp add: write_ppu_def Let_def toggle_def)
  have t2: "t (write_ppu wr ?p1 0x2006 d2) = (t ?p1 AND 0x7F00) OR ucast d2"
    using w1 by (simp add: write_ppu_def [of wr ?p1] Let_def)
  have v2: "v (write_ppu wr ?p1 0x2006 d2) = t (write_ppu wr ?p1 0x2006 d2)"
    using w1 by (simp add: write_ppu_def [of wr ?p1] Let_def)
  have r: "w (snd (read_ppu rd q 0x2002)) = 0"
    by (simp add: read_ppu_def Let_def)
  show ?thesis
    by (simp only: t1 t2 v2 w1 r ppuaddr_first_write_bits_8_13 ppuaddr_first_write_bit_14
        ppuaddr_second_write_low_byte simp_thms)
qed

text \<open>
  The theorem at the zero state, which has \<open>w = 0\<close>, with the bytes \<open>0xFF\<close> and \<open>0x34\<close>: after
  the two writes \<open>t\<close> and \<open>v\<close> are \<open>0x3F34\<close>.
\<close>

theorem C6_PPUADDR_witness:
  "w ppu_zero = 0 \<and>
   take_bit 6 (drop_bit 8 (t (write_ppu flat_ppu_write ppu_zero 0x2006 0xFF))) = 0x3F \<and>
   \<not> bit (t (write_ppu flat_ppu_write ppu_zero 0x2006 0xFF)) 14 \<and>
   w (write_ppu flat_ppu_write ppu_zero 0x2006 0xFF) = 1 \<and>
   take_bit 8 (t (write_ppu flat_ppu_write
                    (write_ppu flat_ppu_write ppu_zero 0x2006 0xFF) 0x2006 0x34)) = 0x34 \<and>
   v (write_ppu flat_ppu_write (write_ppu flat_ppu_write ppu_zero 0x2006 0xFF) 0x2006 0x34) =
     t (write_ppu flat_ppu_write (write_ppu flat_ppu_write ppu_zero 0x2006 0xFF) 0x2006 0x34) \<and>
   w (snd (read_ppu flat_ppu_read
             (write_ppu flat_ppu_write ppu_zero 0x2006 0xFF) 0x2002)) = 0"
proof -
  have h: "w ppu_zero = 0" by (simp add: ppu_zero_def)
  show ?thesis
    using C6_PPUADDR_two_writes [OF h, of flat_ppu_write "0xFF" "0x34" flat_ppu_read
        "write_ppu flat_ppu_write ppu_zero 0x2006 0xFF"]
    by (simp add: h)
qed

section \<open>The pre-render line and PPUSTATUS.V\<close>

text \<open>
  With background rendering enabled, dot 1 of the pre-render line clears \<open>PPUSTATUS.V\<close>
  and leaves the other bits of the register, for every state.
\<close>

lemma prerender_dot_1_rendering_on:
  assumes "scanline ppu = -1" and "cycles ppu = 1" and "PPUMASK_b (PPUMASK ppu)"
  shows "\<exists>ppu' screen'.
           clock_2C02 rd NMI present (ppu, screen) = Inr (ppu', screen') \<and>
           PPUSTATUS ppu' = PPUSTATUS ppu AND 0x7F \<and>
           \<not> PPUSTATUS_V (PPUSTATUS ppu')"
  using assms
  by (simp add: clock_2C02_def rendering_prerender_dot_1 vblank_start_def
      fetch_data_inc_v_frame shift_right_all_frame advance_dot_frame PPUSTATUS_V_def
      not_bit7_and_7F)

text \<open>
  With background rendering disabled the whole guarded block is skipped, on every
  scanline and dot: the only change a call makes to \<open>PPUSTATUS\<close> is to set \<open>V\<close> at dot 1
  of scanline 241. The clock never clears the flag.
\<close>

lemma clock_2C02_rendering_off_PPUSTATUS:
  assumes "\<not> PPUMASK_b (PPUMASK ppu)"
  shows "\<exists>ppu' screen'.
           clock_2C02 rd NMI present (ppu, screen) = Inr (ppu', screen') \<and>
           PPUSTATUS ppu' =
             (if scanline ppu = 241 \<and> cycles ppu = 1 then PPUSTATUS ppu OR 0x80
              else PPUSTATUS ppu)"
  using assms
  by (simp add: clock_2C02_def rendering_def vblank_start_def advance_dot_frame Let_def
      set_PPUSTATUS_V_def)

text \<open>
  C7: for every PPU state with \<open>scanline = -1\<close> and \<open>cycles = 1\<close>, including the states in
  which background rendering is disabled (\<open>PPUMASK.b = 0\<close>), one call of \<^verbatim>\<open>clock_2C02\<close>
  clears \<open>PPUSTATUS.V\<close>. The clearing statement lies inside
  \<^verbatim>\<open>if (ppu->PPUMASK.flags.b)\<close>, whereas the statement that sets the flag at scanline 241
  lies outside it. At dot 1 of the pre-render line with \<open>PPUMASK = 0\<close> and
  \<open>PPUSTATUS = 0x80\<close> the call only advances the dot counter, and \<open>PPUSTATUS.V\<close> is still
  set.
\<close>

theorem C7_V_kept_when_rendering_disabled:
  "scanline ppu_prerender_off = -1 \<and> cycles ppu_prerender_off = 1 \<and>
   \<not> PPUMASK_b (PPUMASK ppu_prerender_off) \<and>
   clock_2C02 flat_ppu_read count_NMI keep_frame (ppu_prerender_off, black) =
     Inr (ppu_prerender_off\<lparr>cycles := 2\<rparr>, black) \<and>
   PPUSTATUS_V (PPUSTATUS (ppu_prerender_off\<lparr>cycles := 2\<rparr>))"
  by (simp add: clock_2C02_def rendering_def vblank_start_def advance_dot_def Let_def
      ppu_prerender_off_def ppu_zero_def PPUMASK_b_def PPUSTATUS_V_def)

section \<open>Reads of PPUDATA and the VRAM address\<close>

text \<open>
  Below \<open>0x4000\<close> a read of \<open>0x2007\<close> adds 32 or 1 to \<open>v\<close>, as \<open>PPUCTRL.I\<close> says. From
  \<open>0x4000\<close> on neither range test of the case holds: the read returns 0 and changes
  nothing. A write to \<open>0x2007\<close> adds the increment for every \<open>v\<close>.
\<close>

lemma read_ppu_2007_below_4000:
  "v ppu < 0x4000 \<Longrightarrow>
   v (snd (read_ppu rd ppu 0x2007)) = v ppu + (if PPUCTRL_I (PPUCTRL ppu) then 32 else 1)"
  by (auto simp add: read_ppu_def Let_def vram_increment_def not_less split: prod.splits)

lemma read_ppu_2007_from_4000:
  "\<not> v ppu < 0x4000 \<Longrightarrow> read_ppu rd ppu 0x2007 = (0, ppu)"
  by (auto simp add: read_ppu_def Let_def dest: below_3F00_below_4000)

lemma write_ppu_2007_increments:
  "v (write_ppu wr ppu 0x2007 d) = v ppu + (if PPUCTRL_I (PPUCTRL ppu) then 32 else 1)"
  by (simp add: write_ppu_def Let_def vram_increment_def)

text \<open>
  C8: a read of \<open>0x2007\<close> increments \<open>v\<close> by 32 or by 1 in all cases, whatever range \<open>v\<close>
  lies in. After the register writes \<open>0x2005 \<leftarrow> 0\<close>, \<open>0x2005 \<leftarrow> 4\<close>, \<open>0x2005 \<leftarrow> 0\<close>,
  \<open>0x2006 \<leftarrow> 0\<close> from the zero state, \<open>v\<close> is \<open>0x4000\<close> and \<open>PPUCTRL.I\<close> is clear; the read
  returns 0 and leaves the state, and so \<open>v\<close>, as it was, where the claim has \<open>0x4001\<close>.
\<close>

theorem C8_read_2007_no_increment_from_4000:
  "v ppu_after_scroll_writes = 0x4000 \<and>
   \<not> PPUCTRL_I (PPUCTRL ppu_after_scroll_writes) \<and>
   read_ppu flat_ppu_read ppu_after_scroll_writes 0x2007 = (0, ppu_after_scroll_writes) \<and>
   v (snd (read_ppu flat_ppu_read ppu_after_scroll_writes 0x2007)) \<noteq> 0x4000 + 1"
proof -
  have a: "v ppu_after_scroll_writes = 0x4000"
    by (simp add: ppu_after_scroll_writes_def write_ppu_def ppu_zero_def toggle_def Let_def)
  have b: "\<not> PPUCTRL_I (PPUCTRL ppu_after_scroll_writes)"
    by (simp add: ppu_after_scroll_writes_def write_ppu_def ppu_zero_def toggle_def Let_def
        PPUCTRL_I_def)
  have c: "read_ppu flat_ppu_read ppu_after_scroll_writes 0x2007 = (0, ppu_after_scroll_writes)"
    by (simp add: read_ppu_def a)
  show ?thesis by (simp add: a b c)
qed

section \<open>Coarse-X increment at 0x041F\<close>

text \<open>
  C9, as stated: the coarse-X increment of \<open>0x041F\<close> is \<open>0x0400\<close>. The code clears the low
  five bits and then flips bit 10, which was set, so the value returned is \<open>0x0000\<close>.
\<close>

theorem C9_coarseXinc_041F_not_0400: "coarseXinc 0x041F \<noteq> 0x0400"
  by (simp add: coarseXinc_def)

text \<open>
  C9, amended: the coarse-X increment of \<open>0x041F\<close> is \<open>0x0000\<close>, and bit 10 of the output
  is the complement of bit 10 of the input.
\<close>

theorem C9_coarseXinc_041F:
  "coarseXinc 0x041F = 0x0000 \<and>
   bit (coarseXinc 0x041F) 10 = (\<not> bit (0x041F :: uint16_t) 10)"
  by (simp add: coarseXinc_def bit_iff_odd_drop_bit)

section \<open>Every register write reaches PPUSTATUS\<close>

text \<open>
  C10: for every address and every byte \<open>d\<close>, \<^verbatim>\<open>write_ppu\<close> leaves in \<open>PPUSTATUS\<close> the low five
  bits of \<open>d\<close> (mask \<open>0x1F\<close>) and the former bits 5-7 (mask \<open>0xE0\<close>); no case of the switch
  touches the register afterwards. For \<open>0x2003\<close>, \<open>0x2004\<close> and \<open>0x4014\<close>, which have an empty
  case, this is the whole effect of the write.
\<close>

theorem C10_write_ppu_PPUSTATUS:
  "PPUSTATUS (write_ppu wr ppu a d) = (PPUSTATUS ppu AND 0xE0) OR (d AND 0x1F) \<and>
   PPUSTATUS (write_ppu wr ppu a d) AND 0x1F = d AND 0x1F \<and>
   PPUSTATUS (write_ppu wr ppu a d) AND 0xE0 = PPUSTATUS ppu AND 0xE0 \<and>
   write_ppu wr ppu 0x2003 d = ppu\<lparr>PPUSTATUS := (PPUSTATUS ppu AND 0xE0) OR (d AND 0x1F)\<rparr> \<and>
   write_ppu wr ppu 0x2004 d = ppu\<lparr>PPUSTATUS := (PPUSTATUS ppu AND 0xE0) OR (d AND 0x1F)\<rparr> \<and>
   write_ppu wr ppu 0x4014 d = ppu\<lparr>PPUSTATUS := (PPUSTATUS ppu AND 0xE0) OR (d AND 0x1F)\<rparr>"
proof -
  have st: "PPUSTATUS (write_ppu wr ppu a d) = (PPUSTATUS ppu AND 0xE0) OR (d AND 0x1F)"
    by (simp add: write_ppu_def Let_def vram_increment_def)
  have un: "write_ppu wr ppu 0x2003 d = ppu\<lparr>PPUSTATUS := (PPUSTATUS ppu AND 0xE0) OR (d AND 0x1F)\<rparr>"
    "write_ppu wr ppu 0x2004 d = ppu\<lparr>PPUSTATUS := (PPUSTATUS ppu AND 0xE0) OR (d AND 0x1F)\<rparr>"
    "write_ppu wr ppu 0x4014 d = ppu\<lparr>PPUSTATUS := (PPUSTATUS ppu AND 0xE0) OR (d AND 0x1F)\<rparr>"
    by (simp_all add: write_ppu_def Let_def)
  show ?thesis
    by (simp only: st un status_low_bits status_high_bits simp_thms)
qed

text \<open>
  The theorem at the state after power-on status \<open>0xA0\<close> and the byte \<open>0xFF\<close>, written to
  \<open>0x2007\<close>: \<open>PPUSTATUS\<close> becomes \<open>0xBF\<close>.
\<close>

theorem C10_write_ppu_witness:
  "PPUSTATUS (write_ppu flat_ppu_write (ppu_zero\<lparr>PPUSTATUS := 0xA0\<rparr>) 0x2007 0xFF) = 0xBF"
  using C10_write_ppu_PPUSTATUS [of flat_ppu_write "ppu_zero\<lparr>PPUSTATUS := 0xA0\<rparr>" "0x2007" "0xFF"]
  by simp

end
